theory Spec2Isabelle
  imports Complex_Main "HOL-Library.Word"
begin

section \<open>Values of the coordinate type\<close>

text \<open>
  The class \<open>Projection<T>\<close> and the three free functions of \<open>projection.h\<close> are templates
  over a floating-point type \<open>T\<close>. A value of \<open>T\<close> is modelled as a finite real number, a
  negative zero, one of the two infinities, or a NaN. \<open>Fin 0\<close> is the positive zero.
  The operations of this section are exact: they give the result of IEC 60559 before it is
  rounded, with all the special values. The rounding of a result to \<open>T\<close> is added in the
  section on the arithmetic of \<open>T\<close>.
\<close>

datatype fp = Fin real | NZero | PInf | NInf | NaN

fun val :: "fp \<Rightarrow> real" where
  "val (Fin r) = r"
| "val _ = 0"

fun isfinite :: "fp \<Rightarrow> bool" where
  "isfinite (Fin r) = True"
| "isfinite NZero = True"
| "isfinite _ = False"

fun isnan :: "fp \<Rightarrow> bool" where
  "isnan NaN = True"
| "isnan _ = False"

fun isinf :: "fp \<Rightarrow> bool" where
  "isinf PInf = True"
| "isinf NInf = True"
| "isinf _ = False"

text \<open>The sign bit; the sign of a NaN is never looked at.\<close>

fun signbit :: "fp \<Rightarrow> bool" where
  "signbit (Fin r) = (r < 0)"
| "signbit NZero = True"
| "signbit NInf = True"
| "signbit _ = False"

fun is_zero :: "fp \<Rightarrow> bool" where
  "is_zero (Fin r) = (r = 0)"
| "is_zero NZero = True"
| "is_zero _ = False"

definition zero_of :: "bool \<Rightarrow> fp" where
  "zero_of neg = (if neg then NZero else Fin 0)"

definition inf_of :: "bool \<Rightarrow> fp" where
  "inf_of neg = (if neg then NInf else PInf)"

text \<open>A finite real as a value of \<open>T\<close>, with the sign given for a zero.\<close>

definition fin_of :: "bool \<Rightarrow> real \<Rightarrow> fp" where
  "fin_of neg r = (if r = 0 then zero_of neg else Fin r)"

text \<open>The comparisons of C++ on \<open>T\<close>: every ordered comparison with a NaN is false,
  \<open>!=\<close> with a NaN is true, and the two zeros are equal.\<close>

definition fne0 :: "fp \<Rightarrow> bool" where
  "fne0 x = (\<not> is_zero x)"

fun flt :: "fp \<Rightarrow> fp \<Rightarrow> bool" where
  "flt NaN _ = False"
| "flt _ NaN = False"
| "flt PInf _ = False"
| "flt _ NInf = False"
| "flt NInf _ = True"
| "flt _ PInf = True"
| "flt a b = (val a < val b)"

fun fle :: "fp \<Rightarrow> fp \<Rightarrow> bool" where
  "fle NaN _ = False"
| "fle _ NaN = False"
| "fle NInf _ = True"
| "fle _ PInf = True"
| "fle PInf _ = False"
| "fle _ NInf = False"
| "fle a b = (val a \<le> val b)"

definition fge :: "fp \<Rightarrow> fp \<Rightarrow> bool" where
  "fge a b = fle b a"

text \<open>The arithmetic of C++ on \<open>T\<close>, with the special cases of IEC 60559.\<close>

fun fneg :: "fp \<Rightarrow> fp" where
  "fneg (Fin r) = (if r = 0 then NZero else Fin (- r))"
| "fneg NZero = Fin 0"
| "fneg PInf = NInf"
| "fneg NInf = PInf"
| "fneg NaN = NaN"

definition fadd :: "fp \<Rightarrow> fp \<Rightarrow> fp" where
  "fadd a b =
    (if isnan a \<or> isnan b then NaN
     else if isinf a then (if isinf b \<and> a \<noteq> b then NaN else a)
     else if isinf b then b
     else fin_of (a = NZero \<and> b = NZero) (val a + val b))"

definition fsub :: "fp \<Rightarrow> fp \<Rightarrow> fp" where
  "fsub a b = fadd a (fneg b)"

definition fmul :: "fp \<Rightarrow> fp \<Rightarrow> fp" where
  "fmul a b =
    (if isnan a \<or> isnan b then NaN
     else if (isinf a \<and> is_zero b) \<or> (is_zero a \<and> isinf b) then NaN
     else if isinf a \<or> isinf b then inf_of (signbit a \<noteq> signbit b)
     else fin_of (signbit a \<noteq> signbit b) (val a * val b))"

definition fdiv :: "fp \<Rightarrow> fp \<Rightarrow> fp" where
  "fdiv a b =
    (if isnan a \<or> isnan b then NaN
     else if (isinf a \<and> isinf b) \<or> (is_zero a \<and> is_zero b) then NaN
     else if isinf a \<or> is_zero b then inf_of (signbit a \<noteq> signbit b)
     else if isinf b then zero_of (signbit a \<noteq> signbit b)
     else fin_of (signbit a \<noteq> signbit b) (val a / val b))"

text \<open>\<open>std::hypot\<close>: an infinite argument gives plus infinity, also beside a NaN.\<close>

definition hypot :: "fp \<Rightarrow> fp \<Rightarrow> fp" where
  "hypot x y =
    (if isinf x \<or> isinf y then PInf
     else if isnan x \<or> isnan y then NaN
     else Fin (sqrt ((val x)\<^sup>2 + (val y)\<^sup>2)))"

text \<open>\<open>std::atan2\<close>: the angle of the point \<open>(x, y)\<close> in \<open>[-pi, pi]\<close>, with the cases of
  IEC 60559 for zeros and infinities. The first argument is \<open>y\<close>.\<close>

definition atan2 :: "fp \<Rightarrow> fp \<Rightarrow> fp" where
  "atan2 y x =
    (if isnan x \<or> isnan y then NaN
     else if is_zero y then
       (if signbit x then fin_of (signbit y) (if signbit y then - pi else pi)
        else zero_of (signbit y))
     else if is_zero x then Fin (if signbit y then - (pi / 2) else pi / 2)
     else if isinf y then
       (if x = PInf then Fin (if signbit y then - (pi / 4) else pi / 4)
        else if x = NInf then Fin (if signbit y then - (3 * pi / 4) else 3 * pi / 4)
        else Fin (if signbit y then - (pi / 2) else pi / 2))
     else if x = NInf then Fin (if signbit y then - pi else pi)
     else if x = PInf then zero_of (signbit y)
     else if 0 < val x then Fin (arctan (val y / val x))
     else if 0 < val y then Fin (arctan (val y / val x) + pi)
     else Fin (arctan (val y / val x) - pi))"

section \<open>The free functions of projection.h\<close>

text \<open>The three functions on exact values: the angles are those of the exact \<open>atan2\<close> and
  \<open>hypot\<close>.\<close>

definition is_point_valid :: "fp \<Rightarrow> fp \<Rightarrow> fp \<Rightarrow> bool" where
  "is_point_valid x y z =
    (isfinite x \<and> isfinite y \<and> isfinite z \<and> (fne0 x \<or> fne0 y \<or> fne0 z))"

definition azimuth :: "fp \<Rightarrow> fp \<Rightarrow> fp \<Rightarrow> fp" where
  "azimuth x y z = atan2 y x"


section \<open>The point cloud and the configuration\<close>

text \<open>
  \<open>sensor_msgs::PointCloud2\<close> is declared outside the repository. Its members \<open>height\<close>,
  \<open>width\<close>, \<open>point_step\<close> and \<open>row_step\<close> are \<open>uint32\<close>, \<open>data\<close> is a vector of bytes; the
  header and the field descriptors (\<open>fields\<close> in the source, \<open>point_fields\<close> here) are only copied
  and their types are left open.
\<close>

type_synonym byte = "8 word"
type_synonym u32 = "32 word"

text \<open>An \<open>int\<close> is a 32-bit word read in two's complement, by \<open>sint\<close>. Its conversion to
  \<open>uint32\<close> keeps the bits.\<close>

type_synonym i32 = "32 word"

definition u32_of_int :: "i32 \<Rightarrow> u32" where
  "u32_of_int n = n"

record ('h, 'f) PointCloud2 =
  header :: 'h
  height :: u32
  width :: u32
  point_fields :: 'f
  is_bigendian :: bool
  point_step :: u32
  row_step :: u32
  data :: "byte list"
  is_dense :: bool

text \<open>
  The data members of \<open>Projection<T>\<close>. The members \<open>height_\<close>, \<open>width_\<close>, \<open>f_azimuth_\<close>,
  \<open>f_elevation_\<close>, \<open>c_azimuth_\<close>, \<open>c_elevation_\<close>, \<open>keep_\<close> and \<open>azimuth_only_\<close> of the source
  lose their trailing underscore and gain the prefix \<open>cfg\<close>.
\<close>

record Projection =
  cfg_height :: i32
  cfg_width :: i32
  cfg_f_azimuth :: fp
  cfg_f_elevation :: fp
  cfg_c_azimuth :: fp
  cfg_c_elevation :: fp
  cfg_keep :: i32
  cfg_azimuth_only :: bool

definition KEEP_FIRST :: i32 where "KEEP_FIRST = 0"
definition KEEP_LAST :: i32 where "KEEP_LAST = 1"
definition KEEP_CLOSEST :: i32 where "KEEP_CLOSEST = 2"
definition KEEP_FARTHEST :: i32 where "KEEP_FARTHEST = 3"

text \<open>The member initialisers of the class: the configuration of a fresh object.\<close>

definition default_Projection :: Projection where
  "default_Projection =
    \<lparr>cfg_height = 0, cfg_width = 0, cfg_f_azimuth = NaN, cfg_f_elevation = NaN,
     cfg_c_azimuth = NaN, cfg_c_elevation = NaN, cfg_keep = KEEP_LAST,
     cfg_azimuth_only = False\<rparr>"

text \<open>
  With assertions enabled, \<open>process\<close> stops at a failed \<open>assert\<close> (the line of the assertion
  and the output as it is at that moment are kept). An access outside a buffer and an overflow
  of a signed integer have no defined behaviour; the model stops there too.
\<close>

datatype 'c error = Assertion_failed nat 'c | Out_of_bounds | Signed_overflow

section \<open>The arithmetic of T\<close>

text \<open>
  \<open>T\<close> is a parameter of the templates, and so is its arithmetic. An arithmetic gives
  \<^item> \<open>to_T\<close>: the value of \<open>T\<close> that stands for an exact result that is finite and not zero
    (a finite value of \<open>T\<close>, or an infinity when the result overflows);
  \<^item> \<open>to_wide\<close>: the same for the type in which an operation on a \<open>T\<close> and a \<open>double\<close> is
    carried out, which is \<open>double\<close> for \<open>T = float\<close> and \<open>T\<close> itself for \<open>T = double\<close> and
    \<open>T = long double\<close>;
  \<^item> \<open>lib_atan2\<close> and \<open>lib_hypot\<close>: the functions \<open>std::atan2\<close> and \<open>std::hypot\<close> on \<open>T\<close>;
  \<^item> \<open>M_PI\<close>: the value of the macro of that name, a \<open>double\<close>.

  Every operation of the source is rounded once to the type in which it is carried out; no
  operation is contracted with another and none is carried out in a wider type than the
  language asks for.
\<close>

record arith =
  to_T :: "real \<Rightarrow> fp"
  to_wide :: "real \<Rightarrow> fp"
  lib_atan2 :: "fp \<Rightarrow> fp \<Rightarrow> fp"
  lib_hypot :: "fp \<Rightarrow> fp \<Rightarrow> fp"
  M_PI :: real

text \<open>The rounding of an exact result: zeros, infinities and NaN stay as they are.\<close>

definition rnd :: "(real \<Rightarrow> fp) \<Rightarrow> fp \<Rightarrow> fp" where
  "rnd f v = (case v of Fin r \<Rightarrow> if r = 0 then v else f r | _ \<Rightarrow> v)"

definition in_T :: "arith \<Rightarrow> fp \<Rightarrow> fp" where
  "in_T A v = rnd (to_T A) v"

definition in_wide :: "arith \<Rightarrow> fp \<Rightarrow> fp" where
  "in_wide A v = rnd (to_wide A) v"

text \<open>The values of \<open>T\<close> that the calls \<open>azimuth(x, y, z)\<close> and \<open>elevation(x, y, z)\<close> return:
  lines 20 and 26 with the library functions on \<open>T\<close>.\<close>

definition azimuth_T :: "arith \<Rightarrow> fp \<Rightarrow> fp \<Rightarrow> fp \<Rightarrow> fp" where
  "azimuth_T A x y z = lib_atan2 A y x"

definition elevation_T :: "arith \<Rightarrow> fp \<Rightarrow> fp \<Rightarrow> fp \<Rightarrow> fp" where
  "elevation_T A x y z = lib_atan2 A z (lib_hypot A x y)"

section \<open>Conversions and buffer accesses\<close>

text \<open>\<open>T(n)\<close> for an unsigned 32-bit \<open>n\<close>, also where the language converts \<open>n\<close> to compare it
  with a \<open>T\<close>: a value of \<open>T\<close>, which is \<open>n\<close> only if \<open>T\<close> has it.\<close>

definition of_u32 :: "arith \<Rightarrow> u32 \<Rightarrow> fp" where
  "of_u32 A n = in_T A (Fin (real (unat n)))"

text \<open>The conversion of \<open>T\<close> to \<open>size_t\<close> truncates. \<open>process\<close> applies it only after the
  range test of lines 87 and 99, to a value that is at least 0 and below the \<open>T\<close> of a
  \<open>uint32\<close>.\<close>

definition to_size :: "fp \<Rightarrow> nat" where
  "to_size u = nat \<lfloor>val u\<rfloor>"

text \<open>The arithmetic of \<open>size_t\<close>, 64 bits wide.\<close>

definition sz :: "nat \<Rightarrow> nat" where
  "sz n = n mod 2 ^ 64"

text \<open>
  The iterators \<open>PointCloud2ConstIterator<T>\<close> and \<open>PointCloud2Iterator<T>\<close> on the field
  \<open>"x"\<close> are declared outside the repository. An iterator is a position in the bytes of a
  buffer, here a signed offset from the first record; \<open>x[0]\<close>, \<open>x[1]\<close>, \<open>x[2]\<close> are read from
  the bytes of the record at that position by \<open>xyz\<close>, which stands for the layout of the
  fields and is the same for input and output, since \<open>process\<close> copies \<open>fields\<close>,
  \<open>is_bigendian\<close> and \<open>point_step\<close>. A record that is not inside the buffer cannot be read.
  The clouds of this model have the three coordinate fields: the constructor of an iterator
  throws for a cloud without a field \<open>"x"\<close>, and no such cloud is modelled.

  The iterator keeps \<open>point_step\<close> in an \<open>int\<close>. Its increment adds that \<open>int\<close> to the
  position. Its \<open>operator+\<close> takes an \<open>int\<close>: the \<open>size_t\<close> of the source is converted to
  an \<open>int\<close>, which keeps the low 32 bits, and the displacement in bytes is the product of two
  \<open>int\<close>, undefined when it overflows.
\<close>

definition int_of_size :: "nat \<Rightarrow> int" where
  "int_of_size n = sint (word_of_nat n :: 32 word)"

definition advance :: "u32 \<Rightarrow> nat \<Rightarrow> int option" where
  "advance ps n =
    (let d = int_of_size n * sint ps in
     if - (2 ^ 31) \<le> d \<and> d < 2 ^ 31 then Some d else None)"

definition read_at ::
  "(byte list \<Rightarrow> fp \<times> fp \<times> fp) \<Rightarrow> u32 \<Rightarrow> byte list \<Rightarrow> int \<Rightarrow> (fp \<times> fp \<times> fp) option" where
  "read_at xyz ps buf pos =
    (if 0 \<le> pos \<and> nat pos + unat ps \<le> length buf
     then Some (xyz (take (unat ps) (drop (nat pos) buf))) else None)"

text \<open>The position of \<open>x_in\<close> at the input point in row \<open>i_in\<close> and column \<open>j_in\<close>: it has
  been incremented once for every point before this one.\<close>

definition x_in_position :: "('h, 'f) PointCloud2 \<Rightarrow> nat \<Rightarrow> nat \<Rightarrow> int" where
  "x_in_position input i_in j_in =
    int (i_in * unat (width input) + j_in) * sint (point_step input)"

text \<open>The position of \<open>x_out\<close> at lines 106, 113 and 121:
  \<open>x_out_begin + i_out * output.width + j_out\<close> applies \<open>operator+\<close> twice, first to the
  product, which is a \<open>size_t\<close>, then to \<open>j_out\<close>.\<close>

definition x_out_position :: "('h, 'f) PointCloud2 \<Rightarrow> nat \<Rightarrow> nat \<Rightarrow> int option" where
  "x_out_position output i_out j_out =
    (case advance (point_step output) (sz (i_out * unat (width output))) of
       None \<Rightarrow> None
     | Some d1 \<Rightarrow>
        (case advance (point_step output) j_out of
           None \<Rightarrow> None
         | Some d2 \<Rightarrow> Some (d1 + d2)))"

section \<open>Projection::process\<close>

text \<open>Lines 56 and 58: the height and the width of the output.\<close>

definition output_height :: "Projection \<Rightarrow> ('h, 'f) PointCloud2 \<Rightarrow> u32" where
  "output_height P input =
    (if cfg_azimuth_only P \<or> cfg_height P = 0 then height input else u32_of_int (cfg_height P))"

definition output_width :: "Projection \<Rightarrow> ('h, 'f) PointCloud2 \<Rightarrow> u32" where
  "output_width P input =
    (if cfg_width P = 0 then width input else u32_of_int (cfg_width P))"

text \<open>Lines 52 to 67: the assertions and the header of the output, in the order of the
  source. The size given to \<open>resize\<close> is a product of three \<open>uint32\<close>.\<close>

definition init_output ::
  "Projection \<Rightarrow> ('h, 'f) PointCloud2 \<Rightarrow> ('h, 'f) PointCloud2 \<Rightarrow>
    ('h, 'f) PointCloud2 error + ('h, 'f) PointCloud2" where
  "init_output P input output =
    (if \<not> 1 \<le> height input then Inl (Assertion_failed 52 output)
     else if \<not> 1 \<le> width input then Inl (Assertion_failed 53 output)
     else if row_step input \<noteq> width input * point_step input then Inl (Assertion_failed 54 output)
     else
       let output = output\<lparr>header := header input\<rparr>;
           output = output\<lparr>height := output_height P input\<rparr>
       in
       if \<not> 1 \<le> height output then Inl (Assertion_failed 57 output)
       else
         let output = output\<lparr>width := output_width P input\<rparr>
         in
         if \<not> 1 \<le> width output then Inl (Assertion_failed 59 output)
         else
           let output = output\<lparr>point_fields := point_fields input\<rparr>;
               output = output\<lparr>is_bigendian := is_bigendian input\<rparr>;
               output = output\<lparr>point_step := point_step input\<rparr>;
               output = output\<lparr>row_step := width output * point_step output\<rparr>;
               output = output\<lparr>data := []\<rparr>;
               output = output\<lparr>data :=
                 replicate (unat (height output * width output * point_step output)) 0\<rparr>;
               output = output\<lparr>is_dense := is_dense input\<rparr>
           in Inr output)"

text \<open>
  Lines 69 to 72: the four constants of the mapping. In \<open>-T(output.width) / (2 * M_PI)\<close> the
  width is converted to \<open>T\<close>, the divisor is a \<open>double\<close> (doubling and halving \<open>M_PI\<close> are
  exact), the quotient is taken in the wider of the two types and converted to \<open>T\<close>. In
  \<open>T(output.width) / 2 - 0.5\<close> the quotient is taken in \<open>T\<close>, the difference with the
  \<open>double\<close> 0.5 in the wider type, and the result is converted to \<open>T\<close>.
\<close>

definition f_azimuth :: "arith \<Rightarrow> Projection \<Rightarrow> ('h, 'f) PointCloud2 \<Rightarrow> fp" where
  "f_azimuth A P output =
    (if isfinite (cfg_f_azimuth P) \<and> fne0 (cfg_f_azimuth P) then cfg_f_azimuth P
     else in_T A (in_wide A (fdiv (fneg (of_u32 A (width output))) (Fin (2 * M_PI A)))))"

definition f_elevation :: "arith \<Rightarrow> Projection \<Rightarrow> ('h, 'f) PointCloud2 \<Rightarrow> fp" where
  "f_elevation A P output =
    (if isfinite (cfg_f_elevation P) \<and> fne0 (cfg_f_elevation P) then cfg_f_elevation P
     else in_T A (in_wide A (fdiv (fneg (of_u32 A (height output))) (Fin (M_PI A / 2)))))"

definition c_azimuth :: "arith \<Rightarrow> Projection \<Rightarrow> ('h, 'f) PointCloud2 \<Rightarrow> fp" where
  "c_azimuth A P output =
    (if isfinite (cfg_c_azimuth P) then cfg_c_azimuth P
     else in_T A (in_wide A
            (fsub (in_T A (fdiv (of_u32 A (width output)) (Fin 2))) (Fin (1 / 2)))))"

definition c_elevation :: "arith \<Rightarrow> Projection \<Rightarrow> ('h, 'f) PointCloud2 \<Rightarrow> fp" where
  "c_elevation A P output =
    (if isfinite (cfg_c_elevation P) then cfg_c_elevation P
     else in_T A (in_wide A
            (fsub (in_T A (fdiv (of_u32 A (height output)) (Fin 2))) (Fin (1 / 2)))))"

text \<open>
  Lines 83 to 89: the column of a valid point, \<open>None\<close> where the source continues. The product
  and the sum of line 83 are operations of \<open>T\<close>; \<open>u += 0.5\<close> adds a \<open>double\<close> in the wider
  type and converts the sum to \<open>T\<close>. In \<open>u >= output.width\<close> the width is converted to \<open>T\<close>.
\<close>

definition u_of :: "arith \<Rightarrow> Projection \<Rightarrow> ('h, 'f) PointCloud2 \<Rightarrow> fp \<Rightarrow> fp \<Rightarrow> fp \<Rightarrow> fp" where
  "u_of A P output x y z =
    in_T A (in_wide A
      (fadd (in_T A (fadd (in_T A (fmul (f_azimuth A P output) (azimuth_T A x y z)))
                          (c_azimuth A P output)))
            (Fin (1 / 2))))"

definition out_column ::
  "arith \<Rightarrow> Projection \<Rightarrow> ('h, 'f) PointCloud2 \<Rightarrow> fp \<Rightarrow> fp \<Rightarrow> fp \<Rightarrow> nat option" where
  "out_column A P output x y z =
    (let u = u_of A P output x y z in
     if flt u (Fin 0) \<or> fge u (of_u32 A (width output)) \<or> isnan u then None
     else Some (to_size u))"

text \<open>Lines 90 to 102: the row of a valid point, \<open>None\<close> where the source continues.\<close>

definition v_of :: "arith \<Rightarrow> Projection \<Rightarrow> ('h, 'f) PointCloud2 \<Rightarrow> fp \<Rightarrow> fp \<Rightarrow> fp \<Rightarrow> fp" where
  "v_of A P output x y z =
    in_T A (in_wide A
      (fadd (in_T A (fadd (in_T A (fmul (f_elevation A P output) (elevation_T A x y z)))
                          (c_elevation A P output)))
            (Fin (1 / 2))))"

definition out_row ::
  "arith \<Rightarrow> Projection \<Rightarrow> ('h, 'f) PointCloud2 \<Rightarrow> nat \<Rightarrow> fp \<Rightarrow> fp \<Rightarrow> fp \<Rightarrow> nat option" where
  "out_row A P output i_in x y z =
    (if cfg_azimuth_only P then Some i_in
     else
       let v = v_of A P output x y z in
       if flt v (Fin 0) \<or> fge v (of_u32 A (height output)) \<or> isnan v then None
       else Some (to_size v))"

text \<open>
  Lines 104 to 126: whether the point already in the target pixel keeps its place. The first
  triple holds the coordinates read from the output, the second those of the input point.
  The range of a point is \<open>std::hypot(std::hypot(x, y), z)\<close>, two calls of the library
  function on \<open>T\<close>.
\<close>

definition range_of :: "arith \<Rightarrow> fp \<times> fp \<times> fp \<Rightarrow> fp" where
  "range_of A p = (case p of (x, y, z) \<Rightarrow> lib_hypot A (lib_hypot A x y) z)"

definition valid_xyz :: "fp \<times> fp \<times> fp \<Rightarrow> bool" where
  "valid_xyz p = (case p of (x, y, z) \<Rightarrow> is_point_valid x y z)"

definition reads_output :: "i32 \<Rightarrow> bool" where
  "reads_output keep = (keep = KEEP_FIRST \<or> keep = KEEP_CLOSEST \<or> keep = KEEP_FARTHEST)"

definition keep_skips :: "arith \<Rightarrow> i32 \<Rightarrow> fp \<times> fp \<times> fp \<Rightarrow> fp \<times> fp \<times> fp \<Rightarrow> bool" where
  "keep_skips A keep x_out x_in =
    ((if keep = KEEP_FIRST then valid_xyz x_out
      else if keep = KEEP_CLOSEST
        then valid_xyz x_out \<and> fle (range_of A x_out) (range_of A x_in)
      else False)
     \<or> (keep = KEEP_FARTHEST \<and> valid_xyz x_out \<and> fge (range_of A x_out) (range_of A x_in)))"

text \<open>Lines 129 to 131: \<open>std::copy\<close> of one record of the input over the bytes of the target
  pixel. The three offsets are computed in \<open>size_t\<close>.\<close>

definition copy_point ::
  "('h, 'f) PointCloud2 \<Rightarrow> ('h, 'f) PointCloud2 \<Rightarrow> nat \<Rightarrow> nat \<Rightarrow> nat \<Rightarrow> nat \<Rightarrow> byte list \<Rightarrow>
    ('h, 'f) PointCloud2 error + byte list" where
  "copy_point input output i_in j_in i_out j_out odata =
    (let first = sz (i_in * unat (row_step input) + j_in * unat (point_step input));
         last = sz (i_in * unat (row_step input) + (j_in + 1) * unat (point_step input));
         d_first = sz (i_out * unat (row_step output) + j_out * unat (point_step output))
     in
     if first \<le> last \<and> last \<le> length (data input) \<and> d_first + (last - first) \<le> length odata
     then Inr (take d_first odata @ take (last - first) (drop first (data input))
                @ drop (d_first + (last - first)) odata)
     else Inl Out_of_bounds)"

text \<open>
  Lines 80 to 131: the body of the inner loop for the input point in row \<open>i_in\<close> and column
  \<open>j_in\<close>, on the bytes \<open>odata\<close> of the output. Under \<open>KEEP_LAST\<close> the iterator \<open>x_out\<close> is
  never made.
\<close>

definition process_point ::
  "arith \<Rightarrow> Projection \<Rightarrow> (byte list \<Rightarrow> fp \<times> fp \<times> fp) \<Rightarrow> ('h, 'f) PointCloud2 \<Rightarrow>
    ('h, 'f) PointCloud2 \<Rightarrow> nat \<Rightarrow> nat \<Rightarrow> byte list \<Rightarrow> ('h, 'f) PointCloud2 error + byte list" where
  "process_point A P xyz input output i_in j_in odata =
    (case read_at xyz (point_step input) (data input) (x_in_position input i_in j_in) of
       None \<Rightarrow> Inl Out_of_bounds
     | Some (x, y, z) \<Rightarrow>
         if \<not> is_point_valid x y z then Inr odata
         else
           (case out_column A P output x y z of
              None \<Rightarrow> Inr odata
            | Some j_out \<Rightarrow>
               (case out_row A P output i_in x y z of
                  None \<Rightarrow> Inr odata
                | Some i_out \<Rightarrow>
                   if reads_output (cfg_keep P) then
                     (case x_out_position output i_out j_out of
                        None \<Rightarrow> Inl Signed_overflow
                      | Some pos \<Rightarrow>
                         (case read_at xyz (point_step output) odata pos of
                            None \<Rightarrow> Inl Out_of_bounds
                          | Some x_out \<Rightarrow>
                              if keep_skips A (cfg_keep P) x_out (x, y, z) then Inr odata
                              else copy_point input output i_in j_in i_out j_out odata))
                   else copy_point input output i_in j_in i_out j_out odata)))"

text \<open>A loop that stops at the first error.\<close>

fun foldE :: "('a \<Rightarrow> 's \<Rightarrow> 'e + 's) \<Rightarrow> 'a list \<Rightarrow> 's \<Rightarrow> 'e + 's" where
  "foldE f [] s = Inr s"
| "foldE f (a # as) s = (case f a s of Inl e \<Rightarrow> Inl e | Inr s' \<Rightarrow> foldE f as s')"

text \<open>Lines 76 to 133: the two nested loops, rows outside and columns inside.\<close>

definition process_loop ::
  "arith \<Rightarrow> Projection \<Rightarrow> (byte list \<Rightarrow> fp \<times> fp \<times> fp) \<Rightarrow> ('h, 'f) PointCloud2 \<Rightarrow>
    ('h, 'f) PointCloud2 \<Rightarrow> byte list \<Rightarrow> ('h, 'f) PointCloud2 error + byte list" where
  "process_loop A P xyz input output odata =
    foldE (\<lambda>i_in. foldE (\<lambda>j_in. process_point A P xyz input output i_in j_in)
                     [0 ..< unat (width input)])
      [0 ..< unat (height input)] odata"

text \<open>
  \<open>process\<close>, called with two distinct objects. The result is the error, or the value returned
  together with the output.
\<close>

definition process ::
  "arith \<Rightarrow> Projection \<Rightarrow> (byte list \<Rightarrow> fp \<times> fp \<times> fp) \<Rightarrow> ('h, 'f) PointCloud2 \<Rightarrow>
    ('h, 'f) PointCloud2 \<Rightarrow> ('h, 'f) PointCloud2 error + bool \<times> ('h, 'f) PointCloud2" where
  "process A P xyz input output =
    (case init_output P input output of
       Inl e \<Rightarrow> Inl e
     | Inr output \<Rightarrow>
        (case process_loop A P xyz input output (data output) of
           Inl e \<Rightarrow> Inl e
         | Inr odata \<Rightarrow> Inr (True, output\<lparr>data := odata\<rparr>)))"

section \<open>Notions used to state the properties\<close>

text \<open>
  A cloud is well formed when its sizes are those of the data model: at least one row and one
  column, rows of \<open>width\<close> records without padding, and a buffer of \<open>height\<close> rows.
\<close>

definition well_formed :: "('h, 'f) PointCloud2 \<Rightarrow> bool" where
  "well_formed c =
    (1 \<le> unat (height c) \<and> 1 \<le> unat (width c)
     \<and> unat (row_step c) = unat (width c) * unat (point_step c)
     \<and> length (data c) = unat (height c) * unat (row_step c))"

text \<open>The bytes of the pixel in row \<open>i\<close> and column \<open>j\<close> of a cloud, where line 131 writes
  and line 129 reads them.\<close>

definition cell :: "('h, 'f) PointCloud2 \<Rightarrow> nat \<Rightarrow> nat \<Rightarrow> byte list" where
  "cell c i j =
    take (unat (point_step c)) (drop (i * unat (row_step c) + j * unat (point_step c)) (data c))"

text \<open>The pixel of the output that the input point in row \<open>i_in\<close> and column \<open>j_in\<close> is
  projected to: \<open>None\<close> for a point that is invalid or outside the image.\<close>

definition target ::
  "arith \<Rightarrow> Projection \<Rightarrow> (byte list \<Rightarrow> fp \<times> fp \<times> fp) \<Rightarrow> ('h, 'f) PointCloud2 \<Rightarrow>
    ('h, 'f) PointCloud2 \<Rightarrow> nat \<Rightarrow> nat \<Rightarrow> (nat \<times> nat) option" where
  "target A P xyz input output i_in j_in =
    (case read_at xyz (point_step input) (data input) (x_in_position input i_in j_in) of
       None \<Rightarrow> None
     | Some (x, y, z) \<Rightarrow>
         if \<not> is_point_valid x y z then None
         else
           (case out_column A P output x y z of
              None \<Rightarrow> None
            | Some j_out \<Rightarrow>
               (case out_row A P output i_in x y z of
                  None \<Rightarrow> None
                | Some i_out \<Rightarrow> Some (i_out, j_out))))"


text \<open>The output as lines 55 to 67 leave it when the assertions hold.\<close>

definition initial_output ::
  "Projection \<Rightarrow> ('h, 'f) PointCloud2 \<Rightarrow> ('h, 'f) PointCloud2 \<Rightarrow> ('h, 'f) PointCloud2" where
  "initial_output P input output =
    output\<lparr>header := header input, height := output_height P input,
      width := output_width P input, point_fields := point_fields input,
      is_bigendian := is_bigendian input, point_step := point_step input,
      row_step := output_width P input * point_step input,
      data := replicate
        (unat (output_height P input * output_width P input * point_step input)) 0,
      is_dense := is_dense input\<rparr>"

text \<open>An arithmetic is exact at a number when it has that number as a value of \<open>T\<close> and of
  the wider type. Every arithmetic has the zeros.\<close>

definition exact_at :: "arith \<Rightarrow> real \<Rightarrow> bool" where
  "exact_at A r = (r \<noteq> 0 \<longrightarrow> to_T A r = Fin r \<and> to_wide A r = Fin r)"

section \<open>The arithmetic of float\<close>

text \<open>
  \<open>T = float\<close> on a machine with the formats binary32 and binary64 of IEC 60559 and rounding
  to nearest, ties to even. A format has a precision \<open>p\<close> and a largest exponent \<open>emax\<close>; a
  finite number is rounded to a multiple of the unit in the last place of its binade (of the
  smallest binade for a subnormal number), and to an infinity when the rounded number is beyond
  the largest finite one.
\<close>

definition pow2 :: "int \<Rightarrow> real" where
  "pow2 e = (if 0 \<le> e then 2 ^ nat e else 1 / 2 ^ nat (- e))"

definition rne :: "real \<Rightarrow> int" where
  "rne x =
    (if x - of_int \<lfloor>x\<rfloor> < 1 / 2 then \<lfloor>x\<rfloor>
     else if 1 / 2 < x - of_int \<lfloor>x\<rfloor> then \<lfloor>x\<rfloor> + 1
     else if even \<lfloor>x\<rfloor> then \<lfloor>x\<rfloor> else \<lfloor>x\<rfloor> + 1)"

definition exponent_of :: "real \<Rightarrow> int" where
  "exponent_of r = \<lfloor>log 2 \<bar>r\<bar>\<rfloor>"

definition round_binary :: "nat \<Rightarrow> int \<Rightarrow> real \<Rightarrow> fp" where
  "round_binary p emax r =
    (let q = pow2 (max (exponent_of r) (1 - emax) - (int p - 1));
         m = of_int (rne (r / q)) * q
     in if pow2 (emax + 1) \<le> \<bar>m\<bar> then inf_of (r < 0) else fin_of (r < 0) m)"

definition round_f32 :: "real \<Rightarrow> fp" where
  "round_f32 = round_binary 24 127"

definition round_f64 :: "real \<Rightarrow> fp" where
  "round_f64 = round_binary 53 1023"

text \<open>The library functions round the exact result to \<open>float\<close>; \<open>M_PI\<close> is the \<open>double\<close>
  nearest to \<open>pi\<close>, which is \<open>884279719003555 / 2^48\<close>.\<close>

definition f32_arith :: arith where
  "f32_arith =
    \<lparr>to_T = round_f32, to_wide = round_f64,
     lib_atan2 = (\<lambda>y x. rnd round_f32 (atan2 y x)),
     lib_hypot = (\<lambda>x y. rnd round_f32 (hypot x y)),
     M_PI = 884279719003555 / 281474976710656\<rparr>"

section \<open>A concrete layout and concrete clouds\<close>

text \<open>
  A layout for \<open>T = float\<close>: the coordinates are three little-endian binary32 numbers at the
  offsets 0, 4 and 8 of a record.
\<close>

definition float32_of_bytes :: "byte list \<Rightarrow> fp" where
  "float32_of_bytes bs =
    (let n = unat (bs ! 0) + 256 * unat (bs ! 1) + 65536 * unat (bs ! 2) + 16777216 * unat (bs ! 3);
         s = (2147483648 \<le> n);
         e = (n div 8388608) mod 256;
         m = n mod 8388608
     in
     if e = 255 then (if m = 0 then inf_of s else NaN)
     else if e = 0 then fin_of s ((if s then - 1 else 1) * real m / 2 ^ 149)
     else if 150 \<le> e then Fin ((if s then - 1 else 1) * real (8388608 + m) * 2 ^ (e - 150))
     else Fin ((if s then - 1 else 1) * real (8388608 + m) / 2 ^ (150 - e)))"

definition xyz_f32 :: "byte list \<Rightarrow> fp \<times> fp \<times> fp" where
  "xyz_f32 r =
    (float32_of_bytes (take 4 r), float32_of_bytes (take 4 (drop 4 r)),
     float32_of_bytes (take 4 (drop 8 r)))"

text \<open>An output object before the call; \<open>process\<close> overwrites all of it.\<close>

definition empty_cloud :: "(unit, unit) PointCloud2" where
  "empty_cloud =
    \<lparr>header = (), height = 0, width = 0, point_fields = (), is_bigendian = False,
     point_step = 0, row_step = 0, data = [], is_dense = False\<rparr>"

text \<open>One row of two records of 16 bytes: the points \<open>(1, 0, 0)\<close> and \<open>(2, 0, 0)\<close>, each
  followed by a tag of four bytes.\<close>

definition two_points :: "(unit, unit) PointCloud2" where
  "two_points =
    \<lparr>header = (), height = 1, width = 2, point_fields = (), is_bigendian = False,
     point_step = 16, row_step = 32,
     data = [0, 0, 128, 63, 0, 0, 0, 0, 0, 0, 0, 0, 170, 0, 0, 0,
             0, 0, 0, 64, 0, 0, 0, 0, 0, 0, 0, 0, 187, 0, 0, 0],
     is_dense = True\<rparr>"

text \<open>Three rows of one record of 12 bytes: the points \<open>(1, 0, 0)\<close>, \<open>(2, 0, 0)\<close> and
  \<open>(0, 0, 0)\<close>.\<close>

definition three_rows :: "(unit, unit) PointCloud2" where
  "three_rows =
    \<lparr>header = (), height = 3, width = 1, point_fields = (), is_bigendian = False,
     point_step = 12, row_step = 12,
     data = [0, 0, 128, 63, 0, 0, 0, 0, 0, 0, 0, 0,
             0, 0, 0, 64, 0, 0, 0, 0, 0, 0, 0, 0,
             0, 0, 0, 0, 0, 0, 0, 0, 0, 0, 0, 0],
     is_dense = True\<rparr>"

text \<open>The output of \<open>process\<close> for \<open>three_rows\<close> under the configuration \<open>wide_rows\<close>
  below.\<close>

definition three_rows_out :: "(unit, unit) PointCloud2" where
  "three_rows_out =
    \<lparr>header = (), height = 3, width = 357913942, point_fields = (), is_bigendian = False,
     point_step = 12, row_step = 8,
     data = [0, 0, 128, 63, 0, 0, 0, 0, 0, 0, 0, 64, 0, 0, 0, 0, 0, 0, 0, 0, 0, 0, 0, 0],
     is_dense = True\<rparr>"

text \<open>One record of 16 bytes: the point \<open>(1, 0, 0)\<close> and a tag.\<close>

definition one_point :: "(unit, unit) PointCloud2" where
  "one_point =
    \<lparr>header = (), height = 1, width = 1, point_fields = (), is_bigendian = False,
     point_step = 16, row_step = 16,
     data = [0, 0, 128, 63, 0, 0, 0, 0, 0, 0, 0, 0, 170, 0, 0, 0],
     is_dense = True\<rparr>"

text \<open>Three rows of two records of 12 bytes: the points \<open>(1, 0, 0)\<close> and \<open>(2, 0, 0)\<close> in the
  first row, \<open>(4, 0, 0)\<close> and \<open>(0, 0, 0)\<close> in the second, the origin twice in the third; and the
  output of \<open>process\<close> for them under the configuration \<open>wide_rows\<close> below.\<close>

definition six_points :: "(unit, unit) PointCloud2" where
  "six_points =
    \<lparr>header = (), height = 3, width = 2, point_fields = (), is_bigendian = False,
     point_step = 12, row_step = 24,
     data = [0, 0, 128, 63, 0, 0, 0, 0, 0, 0, 0, 0,   0, 0, 0, 64, 0, 0, 0, 0, 0, 0, 0, 0,
             0, 0, 128, 64, 0, 0, 0, 0, 0, 0, 0, 0,   0, 0, 0, 0, 0, 0, 0, 0, 0, 0, 0, 0,
             0, 0, 0, 0, 0, 0, 0, 0, 0, 0, 0, 0,      0, 0, 0, 0, 0, 0, 0, 0, 0, 0, 0, 0],
     is_dense = True\<rparr>"

definition six_points_out :: "(unit, unit) PointCloud2" where
  "six_points_out =
    \<lparr>header = (), height = 3, width = 357913942, point_fields = (), is_bigendian = False,
     point_step = 12, row_step = 8,
     data = [0, 0, 0, 64, 0, 0, 0, 0, 0, 0, 128, 64, 0, 0, 0, 0, 0, 0, 0, 0, 0, 0, 0, 0],
     is_dense = True\<rparr>"

text \<open>Configurations that set only sizes and the mode: two whose output takes \<open>2^32\<close> bytes
  or more, one that sets a height in azimuth-only mode, and one with rows of \<open>2^24 + 1\<close>
  pixels.\<close>

definition huge_image :: Projection where
  "huge_image = default_Projection\<lparr>cfg_height := 65536, cfg_width := 65536\<rparr>"

definition huge_row :: Projection where
  "huge_row = default_Projection\<lparr>cfg_width := 268435456, cfg_azimuth_only := True\<rparr>"

definition rows_kept :: Projection where
  "rows_kept = default_Projection\<lparr>cfg_height := 7, cfg_azimuth_only := True\<rparr>"

definition wide_image :: Projection where
  "wide_image = default_Projection\<lparr>cfg_width := 16777217\<rparr>"

text \<open>A configuration that asks for rows of \<open>2^32 + 8\<close> bytes in azimuth-only mode, with the
  column of a point set to its azimuth.\<close>

definition wide_rows :: Projection where
  "wide_rows =
    default_Projection\<lparr>cfg_width := 357913942, cfg_azimuth_only := True,
      cfg_f_azimuth := Fin 1, cfg_c_azimuth := Fin 0\<rparr>"

text \<open>Configurations with the scales 1 and the offsets 0: an image of one pixel; the same in
  azimuth-only mode under the policy \<open>KEEP_CLOSEST\<close>; and an image of one row of \<open>2^24 + 1\<close>
  pixels whose offset of the azimuth is \<open>2^24\<close>.\<close>

definition unit_scales :: Projection where
  "unit_scales =
    default_Projection\<lparr>cfg_height := 1, cfg_width := 1, cfg_f_azimuth := Fin 1,
      cfg_f_elevation := Fin 1, cfg_c_azimuth := Fin 0, cfg_c_elevation := Fin 0\<rparr>"


definition boundary :: Projection where
  "boundary = unit_scales\<lparr>cfg_width := 16777217, cfg_c_azimuth := Fin 16777216\<rparr>"

text \<open>The output of \<open>process\<close> for \<open>one_point\<close> under \<open>boundary\<close>, which is also the output
  that lines 55 to 67 prepare under \<open>wide_image\<close>; and the output of \<open>process\<close> for
  \<open>tie_pair\<close> under \<open>closest_only\<close>.\<close>

definition boundary_out :: "(unit, unit) PointCloud2" where
  "boundary_out =
    \<lparr>header = (), height = 1, width = 16777217, point_fields = (), is_bigendian = False,
     point_step = 16, row_step = 268435472, data = replicate 268435472 0, is_dense = True\<rparr>"


section \<open>Facts about the values of the coordinate type\<close>

declare of_nat_unat [simp del]

lemma isfinite_iff: "isfinite x \<longleftrightarrow> x \<noteq> NaN \<and> x \<noteq> PInf \<and> x \<noteq> NInf"
  by (cases x) simp_all

lemma is_zero_iff: "is_zero x \<longleftrightarrow> isfinite x \<and> val x = 0"
  by (cases x) simp_all

lemma isfinite_fin_of [simp]: "isfinite (fin_of s r)"
  by (simp add: fin_of_def zero_of_def)

lemma val_fin_of [simp]: "val (fin_of s r) = r"
  by (simp add: fin_of_def zero_of_def)

lemma isfinite_zero_of [simp]: "isfinite (zero_of s)"
  by (simp add: zero_of_def)

lemma val_zero_of [simp]: "val (zero_of s) = 0"
  by (simp add: zero_of_def)

lemma isfinite_not_special: "isfinite x \<Longrightarrow> \<not> isnan x \<and> \<not> isinf x"
  by (cases x) simp_all







section \<open>The validity classifier\<close>

text \<open>
  Claim C7. \<open>is_point_valid x y z\<close> holds exactly when the three coordinates are finite
  (none is a NaN or an infinity) and at least one of them is not zero. The origin is invalid,
  and so is every triple with a NaN or an infinity in any place.
\<close>

theorem is_point_valid_iff:
  "(is_point_valid x y z \<longleftrightarrow>
      (isfinite x \<and> isfinite y \<and> isfinite z) \<and> (val x \<noteq> 0 \<or> val y \<noteq> 0 \<or> val z \<noteq> 0))
   \<and> (isfinite x \<longleftrightarrow> x \<noteq> NaN \<and> x \<noteq> PInf \<and> x \<noteq> NInf)
   \<and> \<not> is_point_valid (Fin 0) (Fin 0) (Fin 0)
   \<and> \<not> is_point_valid NaN y z \<and> \<not> is_point_valid x NaN z \<and> \<not> is_point_valid x y NaN
   \<and> \<not> is_point_valid PInf y z \<and> \<not> is_point_valid x PInf z \<and> \<not> is_point_valid x y PInf
   \<and> \<not> is_point_valid NInf y z \<and> \<not> is_point_valid x NInf z \<and> \<not> is_point_valid x y NInf"
proof -
  have "is_point_valid x y z \<longleftrightarrow>
      (isfinite x \<and> isfinite y \<and> isfinite z) \<and> (val x \<noteq> 0 \<or> val y \<noteq> 0 \<or> val z \<noteq> 0)"
    by (auto simp add: is_point_valid_def fne0_def is_zero_iff)
  then show ?thesis
    by (simp add: is_point_valid_def fne0_def isfinite_iff)
qed

theorem is_point_valid_iff_witness:
  "is_point_valid (Fin 0) NZero (Fin 3) \<and> \<not> is_point_valid (Fin 0) NZero (Fin 0)
   \<and> \<not> is_point_valid NaN (Fin 1) (Fin 1)"
  using is_point_valid_iff [of "Fin 0" NZero "Fin 3"] is_point_valid_iff [of "Fin 0" NZero "Fin 0"]
    is_point_valid_iff [of NaN "Fin 1" "Fin 1"]
  by simp

section \<open>The elevation\<close>




section \<open>Rounding to a binary format\<close>

lemma pow2_powr: "pow2 e = 2 powr (real_of_int e)"
proof (cases "0 \<le> e")
  case True
  then show ?thesis
    by (simp add: pow2_def powr_realpow [symmetric])
next
  case False
  define m where "m = nat (- e)"
  with False have e: "e = - int m"
    by simp
  have "2 powr (- real m) = 1 / 2 ^ m"
    by (simp only: powr_minus_divide powr_realpow [of 2 m, simplified])
  with False show ?thesis
    by (simp add: pow2_def e)
qed

lemma pow2_pos: "0 < pow2 e"
  by (simp add: pow2_powr)

lemma pow2_add: "pow2 (a + b) = pow2 a * pow2 b"
  by (simp add: pow2_powr powr_add)

lemma exponent_of_eq:
  assumes "pow2 k \<le> \<bar>r\<bar>" and "\<bar>r\<bar> < pow2 (k + 1)"
  shows "exponent_of r = k"
proof -
  from assms(1) have "0 < \<bar>r\<bar>"
    using pow2_pos [of k] by linarith
  then show ?thesis
    using assms by (simp add: exponent_of_def floor_log_eq_powr_iff pow2_powr)
qed

lemma rne_of_int [simp]: "rne (of_int z) = z"
  by (simp add: rne_def)

lemma round_binary_eval:
  assumes "pow2 k \<le> \<bar>r\<bar>" and "\<bar>r\<bar> < pow2 (k + 1)" and "1 - emax \<le> k"
  shows "round_binary p emax r =
    (let q = pow2 (k - (int p - 1)); m = of_int (rne (r / q)) * q
     in if pow2 (emax + 1) \<le> \<bar>m\<bar> then inf_of (r < 0) else fin_of (r < 0) m)"
  using assms(3) by (simp add: round_binary_def exponent_of_eq [OF assms(1,2)] max_def)

lemma round_binary_representable:
  assumes r: "r = of_int n * pow2 e" and n: "n \<noteq> 0" "\<bar>n\<bar> < 2 ^ p"
    and e: "1 - emax - (int p - 1) \<le> e" and b: "\<bar>r\<bar> < pow2 (emax + 1)"
  shows "round_binary p emax r = Fin r"
proof -
  have pe: "pow2 e \<noteq> 0" "\<bar>pow2 e\<bar> = pow2 e"
    using pow2_pos [of e] by linarith+
  have r0: "r \<noteq> 0" using r n pe by simp
  have absr: "\<bar>r\<bar> = of_int \<bar>n\<bar> * pow2 e"
    by (simp add: r abs_mult pe)
  have "log 2 \<bar>r\<bar> = log 2 (of_int \<bar>n\<bar>) + real_of_int e"
    using n by (simp add: absr pow2_powr log_mult)
  moreover have "log 2 (of_int \<bar>n\<bar>) < real p"
  proof -
    have "real_of_int \<bar>n\<bar> < 2 ^ p" using n(2) by (metis of_int_less_numeral_power_cancel_iff)
    then have "real_of_int \<bar>n\<bar> < 2 powr (real p)" by (simp add: powr_realpow)
    moreover have "0 < real_of_int \<bar>n\<bar>" using n by simp
    ultimately show ?thesis by (simp add: log_less_iff)
  qed
  ultimately have "log 2 \<bar>r\<bar> < real p + real_of_int e" by simp
  then have "exponent_of r < int p + e"
    unfolding exponent_of_def by linarith
  then have d: "max (exponent_of r) (1 - emax) - (int p - 1) \<le> e"
    using e by simp
  define d where "d = max (exponent_of r) (1 - emax) - (int p - 1)"
  from d have de: "0 \<le> e - d" by (simp add: d_def)
  have "pow2 e = pow2 (e - d) * pow2 d"
    using pow2_add [of "e - d" d] by simp
  moreover have "pow2 d \<noteq> 0"
    using pow2_pos [of d] by linarith
  ultimately have "r / pow2 d = of_int n * pow2 (e - d)"
    by (simp add: r)
  also have "\<dots> = of_int (n * 2 ^ nat (e - d))"
    using de by (simp add: pow2_def)
  finally have "rne (r / pow2 d) = n * 2 ^ nat (e - d)"
    by (simp only: rne_of_int)
  then have "of_int (rne (r / pow2 d)) * pow2 d = of_int n * (pow2 (e - d) * pow2 d)"
    using de by (simp add: pow2_def)
  also have "\<dots> = r"
    using pow2_add [of "e - d" d] by (simp add: r)
  finally have "of_int (rne (r / pow2 d)) * pow2 d = r" .
  then show ?thesis
    using b r0 by (simp add: round_binary_def d_def [symmetric] Let_def fin_of_def)
qed

lemma round_f32_representable:
  "r = of_int n * pow2 e \<Longrightarrow> n \<noteq> 0 \<Longrightarrow> \<bar>n\<bar> < 16777216 \<Longrightarrow> - 149 \<le> e \<Longrightarrow> \<bar>r\<bar> < 2 ^ 128 \<Longrightarrow> round_f32 r = Fin r"
  unfolding round_f32_def
  by (rule round_binary_representable [of r n e 24 127]) (simp_all add: pow2_def)

lemma round_f64_representable:
  "r = of_int n * pow2 e \<Longrightarrow> n \<noteq> 0 \<Longrightarrow> \<bar>n\<bar> < 9007199254740992 \<Longrightarrow> - 1074 \<le> e \<Longrightarrow> \<bar>r\<bar> < 2 ^ 1024 \<Longrightarrow> round_f64 r = Fin r"
  unfolding round_f64_def
  by (rule round_binary_representable [of r n e 53 1023]) (simp_all add: pow2_def)

lemma round_f32_eval:
  assumes "pow2 k \<le> \<bar>r\<bar>" and "\<bar>r\<bar> < pow2 (k + 1)" and "- 126 \<le> k"
  shows "round_f32 r =
    (let q = pow2 (k - 23); m = of_int (rne (r / q)) * q
     in if 2 ^ 128 \<le> \<bar>m\<bar> then inf_of (r < 0) else fin_of (r < 0) m)"
  using round_binary_eval [OF assms(1,2), of 127 24] assms(3)
  by (simp add: round_f32_def pow2_def)

lemma round_f64_eval:
  assumes "pow2 k \<le> \<bar>r\<bar>" and "\<bar>r\<bar> < pow2 (k + 1)" and "- 1022 \<le> k"
  shows "round_f64 r =
    (let q = pow2 (k - 52); m = of_int (rne (r / q)) * q
     in if 2 ^ 1024 \<le> \<bar>m\<bar> then inf_of (r < 0) else fin_of (r < 0) m)"
  using round_binary_eval [OF assms(1,2), of 1023 53] assms(3)
  by (simp add: round_f64_def pow2_def)

text \<open>The values of \<open>float\<close> and \<open>double\<close> that occur in the calls evaluated below: numbers
  that a format has, and numbers that it rounds.\<close>

lemma f32_values:
  "round_f32 (1 / 2) = Fin (1 / 2)"
  "round_f32 1 = Fin 1"
  "round_f32 (3 / 2) = Fin (3 / 2)"
  "round_f32 2 = Fin 2"
  "round_f32 4 = Fin 4"
  "round_f32 (65535 / 2) = Fin (65535 / 2)"
  "round_f32 32768 = Fin 32768"
  "round_f32 65536 = Fin 65536"
  "round_f32 (16777215 / 2) = Fin (16777215 / 2)"
  "round_f32 8388608 = Fin 8388608"
  "round_f32 16777216 = Fin 16777216"
  "round_f32 134217728 = Fin 134217728"
  "round_f32 268435456 = Fin 268435456"
  using round_f32_representable [of "1 / 2" 1 "- 1"]
    round_f32_representable [of 1 1 0]
    round_f32_representable [of "3 / 2" 3 "- 1"]
    round_f32_representable [of 2 1 1]
    round_f32_representable [of 4 1 2]
    round_f32_representable [of "65535 / 2" 65535 "- 1"]
    round_f32_representable [of 32768 1 15]
    round_f32_representable [of 65536 1 16]
    round_f32_representable [of "16777215 / 2" 16777215 "- 1"]
    round_f32_representable [of 8388608 1 23]
    round_f32_representable [of 16777216 1 24]
    round_f32_representable [of 134217728 1 27]
    round_f32_representable [of 268435456 1 28]
  by (simp_all add: pow2_def)

lemma f64_values:
  "round_f64 (1 / 2) = Fin (1 / 2)"
  "round_f64 1 = Fin 1"
  "round_f64 (3 / 2) = Fin (3 / 2)"
  "round_f64 2 = Fin 2"
  "round_f64 (65535 / 2) = Fin (65535 / 2)"
  "round_f64 32768 = Fin 32768"
  "round_f64 (16777215 / 2) = Fin (16777215 / 2)"
  "round_f64 (33554433 / 2) = Fin (33554433 / 2)"
  "round_f64 (268435455 / 2) = Fin (268435455 / 2)"
  "round_f64 134217728 = Fin 134217728"
  "round_f64 (268435457 / 2) = Fin (268435457 / 2)"
  using round_f64_representable [of "1 / 2" 1 "- 1"]
    round_f64_representable [of 1 1 0]
    round_f64_representable [of "3 / 2" 3 "- 1"]
    round_f64_representable [of 2 1 1]
    round_f64_representable [of "65535 / 2" 65535 "- 1"]
    round_f64_representable [of 32768 1 15]
    round_f64_representable [of "16777215 / 2" 16777215 "- 1"]
    round_f64_representable [of "33554433 / 2" 33554433 "- 1"]
    round_f64_representable [of "268435455 / 2" 268435455 "- 1"]
    round_f64_representable [of 134217728 1 27]
    round_f64_representable [of "268435457 / 2" 268435457 "- 1"]
  by (simp_all add: pow2_def)

lemma f32_rounded:
  "round_f32 (- (5734161139222659 / 134217728)) = Fin (- 42722828)"
  "round_f32 (- (5734161139222659 / 137438953472)) = Fin (- (10680707 / 256))"
  "round_f32 (- (5734161139222659 / 549755813888)) = Fin (- (10680707 / 1024))"
  "round_f32 (- (5734161139222659 / 9007199254740992)) = Fin (- (10680707 / 16777216))"
  "round_f32 (- (5734161139222659 / 18014398509481984)) = Fin (- (10680707 / 33554432))"
  "round_f32 (- (5734161139222659 / 36028797018963968)) = Fin (- (10680707 / 67108864))"
  "round_f32 (33554433 / 2) = Fin 16777216"
  "round_f32 16777217 = Fin 16777216"
  "round_f32 (268435455 / 2) = Fin 134217728"
  "round_f32 (268435457 / 2) = Fin 134217728"
  "round_f32 357913942 = Fin 357913952"
  using round_f32_eval [of 25 "- (5734161139222659 / 134217728)"]
    round_f32_eval [of 15 "- (5734161139222659 / 137438953472)"]
    round_f32_eval [of 13 "- (5734161139222659 / 549755813888)"]
    round_f32_eval [of "- 1" "- (5734161139222659 / 9007199254740992)"]
    round_f32_eval [of "- 2" "- (5734161139222659 / 18014398509481984)"]
    round_f32_eval [of "- 3" "- (5734161139222659 / 36028797018963968)"]
    round_f32_eval [of 24 "33554433 / 2"]
    round_f32_eval [of 24 16777217]
    round_f32_eval [of 26 "268435455 / 2"]
    round_f32_eval [of 27 "268435457 / 2"]
    round_f32_eval [of 28 357913942]
  by (simp_all add: pow2_def rne_def fin_of_def Let_def)

lemma f64_rounded:
  "round_f64 (- (37778931862957161709568 / 884279719003555)) = Fin (- (5734161139222659 / 134217728))"
  "round_f64 (- (36893488147419103232 / 884279719003555)) = Fin (- (5734161139222659 / 137438953472))"
  "round_f64 (- (9223372036854775808 / 884279719003555)) = Fin (- (5734161139222659 / 549755813888))"
  "round_f64 (- (562949953421312 / 884279719003555)) = Fin (- (5734161139222659 / 9007199254740992))"
  "round_f64 (- (281474976710656 / 884279719003555)) = Fin (- (5734161139222659 / 18014398509481984))"
  "round_f64 (- (140737488355328 / 884279719003555)) = Fin (- (5734161139222659 / 36028797018963968))"
  using round_f64_eval [of 25 "- (37778931862957161709568 / 884279719003555)"]
    round_f64_eval [of 15 "- (36893488147419103232 / 884279719003555)"]
    round_f64_eval [of 13 "- (9223372036854775808 / 884279719003555)"]
    round_f64_eval [of "- 1" "- (562949953421312 / 884279719003555)"]
    round_f64_eval [of "- 2" "- (281474976710656 / 884279719003555)"]
    round_f64_eval [of "- 3" "- (140737488355328 / 884279719003555)"]
  by (simp_all add: pow2_def rne_def fin_of_def Let_def)


text \<open>For \<open>float\<close> the calls of \<open>azimuth\<close> and \<open>elevation\<close> return the exact angles of the free
  functions, rounded; in \<open>elevation\<close> the result of \<open>std::hypot\<close> is rounded first.\<close>

lemma f32_angles:
  "azimuth_T f32_arith x y z = rnd round_f32 (azimuth x y z)"
  "elevation_T f32_arith x y z = rnd round_f32 (atan2 z (rnd round_f32 (hypot x y)))"
  by (simp_all add: azimuth_T_def elevation_T_def azimuth_def f32_arith_def)

lemma sqrt_2_48: "sqrt 281474976710656 = 16777216"
  using real_sqrt_abs [of 16777216] by simp


lemma round_f32_sqrt: "round_f32 (sqrt 281474976710657) = Fin 16777216"
proof -
  let ?s = "sqrt 281474976710657"
  have lo: "16777216 \<le> ?s"
    by (rule real_le_rsqrt) simp
  have hi: "?s < 16777217"
    by (rule real_less_lsqrt) simp_all
  have fl: "\<lfloor>?s / 2\<rfloor> = 8388608"
    using lo hi by (simp add: floor_eq_iff)
  have "rne (?s / 2) = 8388608"
    using lo hi by (simp add: rne_def fl)
  with round_f32_eval [of 24 ?s] lo hi show ?thesis
    by (simp add: pow2_def fin_of_def Let_def)
qed

section \<open>Evaluation of concrete calls\<close>

lemma replicate_numeral: "replicate (numeral k) x = x # replicate (pred_numeral k) x"
  by (simp add: numeral_eq_Suc)

lemmas eval_defs =
  process_def init_output_def output_height_def output_width_def Let_def u32_of_int_def
  process_loop_def upt_rec process_point_def read_at_def x_in_position_def x_out_position_def
  advance_def int_of_size_def xyz_f32_def
  float32_of_bytes_def is_point_valid_def fne0_def out_column_def u_of_def f_azimuth_def
  c_azimuth_def azimuth_T_def atan2_def fin_of_def zero_of_def of_u32_def fdiv_def fsub_def
  fadd_def fmul_def fge_def to_size_def out_row_def v_of_def f_elevation_def c_elevation_def
  elevation_T_def hypot_def reads_output_def keep_skips_def valid_xyz_def range_of_def
  KEEP_FIRST_def KEEP_LAST_def KEEP_CLOSEST_def KEEP_FARTHEST_def copy_point_def sz_def
  default_Projection_def empty_cloud_def
  f32_arith_def in_T_def in_wide_def rnd_def f32_values f32_rounded f64_values f64_rounded
  sqrt_2_48 round_f32_sqrt

section \<open>The constants of the mapping\<close>

lemma rnd_exact: "(r \<noteq> 0 \<longrightarrow> f r = Fin r) \<Longrightarrow> rnd f (Fin r) = Fin r"
  by (simp add: rnd_def)

lemma default_offset_exact:
  assumes "exact_at A w" and "exact_at A (w / 2)" and "exact_at A (w / 2 - 1 / 2)"
  shows "in_T A (in_wide A (fsub (in_T A (fdiv (in_T A (Fin w)) (Fin 2))) (Fin (1 / 2)))) =
         fin_of False (w / 2 - 1 / 2)"
proof -
  have 1: "in_T A (Fin w) = Fin w"
    using assms(1) by (simp add: in_T_def exact_at_def rnd_exact)
  have 2: "in_T A (fdiv (Fin w) (Fin 2)) = Fin (w / 2)"
    using assms(2) by (simp add: in_T_def exact_at_def rnd_def fdiv_def fin_of_def zero_of_def)
  have 3: "fsub (Fin (w / 2)) (Fin (1 / 2)) = Fin (w / 2 - 1 / 2)"
    by (simp add: fsub_def fadd_def fin_of_def zero_of_def)
  have 4: "in_T A (in_wide A (Fin (w / 2 - 1 / 2))) = Fin (w / 2 - 1 / 2)"
    using assms(3) by (simp add: in_T_def in_wide_def exact_at_def rnd_def)
  show ?thesis
    by (simp only: 1 2 3 4) (simp add: fin_of_def zero_of_def)
qed

text \<open>The arithmetic of \<open>float\<close> is exact at every natural number below \<open>2^24\<close> and at
  its half, so for these widths the default offset is the one of the exact formula.\<close>

lemma f32_exact_at:
  assumes "k < 16777216"
  shows "exact_at f32_arith (real k)" and "exact_at f32_arith (real k / 2)"
proof -
  have "round_f32 (real k) = Fin (real k)" "round_f64 (real k) = Fin (real k)"
    "round_f32 (real k / 2) = Fin (real k / 2)" "round_f64 (real k / 2) = Fin (real k / 2)"
    if "k \<noteq> 0"
    using that assms round_f32_representable [of "real k" "int k" 0]
      round_f64_representable [of "real k" "int k" 0]
      round_f32_representable [of "real k / 2" "int k" "- 1"]
      round_f64_representable [of "real k / 2" "int k" "- 1"]
    by (simp_all add: pow2_def)
  then show "exact_at f32_arith (real k)" and "exact_at f32_arith (real k / 2)"
    by (simp_all add: exact_at_def f32_arith_def)
qed

lemma f32_default_offset:
  assumes "1 \<le> unat n" and "unat n < 16777216" and "\<not> isfinite (cfg_c_azimuth P)"
    and "width out = n"
  shows "c_azimuth f32_arith P out = fin_of False (real (unat n) / 2 - 1 / 2)"
proof -
  from assms(1) obtain m where m: "unat n = Suc m"
    by (cases "unat n") simp_all
  then have eq: "real (unat n) / 2 - 1 / 2 = real m / 2"
    by (simp add: field_simps)
  have "exact_at f32_arith (real m / 2)"
    using f32_exact_at(2) [of m] assms(2) m by simp
  then have "exact_at f32_arith (real (unat n) / 2 - 1 / 2)"
    by (simp only: eq)
  with f32_exact_at [OF assms(2)] assms(3,4) show ?thesis
    by (simp add: c_azimuth_def of_u32_def default_offset_exact)
qed

text \<open>
  Against claim C5, for \<open>T = float\<close>: with a configured width of \<open>2^24 + 1\<close> and no configured
  offset, the output is prepared with that width, which \<open>float\<close> does not have. \<open>T(output.width)\<close>
  is \<open>2^24\<close>, and the offset of the azimuth is \<open>8388607.5\<close>, not \<open>output.width / 2 - 0.5\<close>,
  which is \<open>8388608\<close>.
\<close>

theorem default_offset_rounded:
  "init_output wide_image one_point empty_cloud = Inr boundary_out
   \<and> \<not> isfinite (cfg_c_azimuth wide_image)
   \<and> c_azimuth f32_arith wide_image boundary_out = Fin (16777215 / 2)
   \<and> real (unat (width boundary_out)) / 2 - 1 / 2 = 8388608"
  by (simp add: eval_defs wide_image_def one_point_def boundary_out_def)

text \<open>
  Claim C5, amended. \<open>f_azimuth\<close> is the configured scale when that is finite and not zero,
  and otherwise the value of \<open>T\<close> computed for \<open>-T(width) / (2 * M_PI)\<close>: the width converted
  to \<open>T\<close>, the quotient rounded. \<open>f_elevation\<close> is the configured scale when that is finite
  and not zero, and otherwise the value computed for \<open>-T(height) / (M_PI / 2)\<close>. \<open>c_azimuth\<close>
  is the configured offset when that is finite (zero included), and otherwise the value
  computed for \<open>T(width) / 2 - 0.5\<close>, which is \<open>width / 2 - 0.5\<close> whenever the arithmetic is
  exact at the width, at its half and at that difference; \<open>c_elevation\<close> is the same with
  the height. The four constants do not depend on the bytes of the output, so they are the
  same for every point of a call.
\<close>

theorem mapping_constants:
  "f_azimuth A P out =
     (if isfinite (cfg_f_azimuth P) \<and> val (cfg_f_azimuth P) \<noteq> 0 then cfg_f_azimuth P
      else in_T A (in_wide A (fdiv (fneg (of_u32 A (width out))) (Fin (2 * M_PI A)))))
   \<and> f_elevation A P out =
     (if isfinite (cfg_f_elevation P) \<and> val (cfg_f_elevation P) \<noteq> 0 then cfg_f_elevation P
      else in_T A (in_wide A (fdiv (fneg (of_u32 A (height out))) (Fin (M_PI A / 2)))))
   \<and> c_azimuth A P out =
     (if isfinite (cfg_c_azimuth P) then cfg_c_azimuth P
      else in_T A (in_wide A
             (fsub (in_T A (fdiv (of_u32 A (width out)) (Fin 2))) (Fin (1 / 2)))))
   \<and> c_elevation A P out =
     (if isfinite (cfg_c_elevation P) then cfg_c_elevation P
      else in_T A (in_wide A
             (fsub (in_T A (fdiv (of_u32 A (height out)) (Fin 2))) (Fin (1 / 2)))))
   \<and> (exact_at A (real (unat (width out))) \<and> exact_at A (real (unat (width out)) / 2)
        \<and> exact_at A (real (unat (width out)) / 2 - 1 / 2) \<longrightarrow>
      c_azimuth A P out =
        (if isfinite (cfg_c_azimuth P) then cfg_c_azimuth P
         else fin_of False (real (unat (width out)) / 2 - 1 / 2)))
   \<and> (exact_at A (real (unat (height out))) \<and> exact_at A (real (unat (height out)) / 2)
        \<and> exact_at A (real (unat (height out)) / 2 - 1 / 2) \<longrightarrow>
      c_elevation A P out =
        (if isfinite (cfg_c_elevation P) then cfg_c_elevation P
         else fin_of False (real (unat (height out)) / 2 - 1 / 2)))
   \<and> f_azimuth A P (out\<lparr>data := d\<rparr>) = f_azimuth A P out
   \<and> f_elevation A P (out\<lparr>data := d\<rparr>) = f_elevation A P out
   \<and> c_azimuth A P (out\<lparr>data := d\<rparr>) = c_azimuth A P out
   \<and> c_elevation A P (out\<lparr>data := d\<rparr>) = c_elevation A P out"
  by (simp add: f_azimuth_def f_elevation_def c_azimuth_def c_elevation_def fne0_def
      is_zero_iff of_u32_def default_offset_exact)

theorem mapping_constants_witness:
  "exact_at f32_arith (real (unat (width two_points)))
   \<and> exact_at f32_arith (real (unat (width two_points)) / 2)
   \<and> exact_at f32_arith (real (unat (width two_points)) / 2 - 1 / 2)
   \<and> exact_at f32_arith (real (unat (height two_points)))
   \<and> exact_at f32_arith (real (unat (height two_points)) / 2)
   \<and> exact_at f32_arith (real (unat (height two_points)) / 2 - 1 / 2)
   \<and> c_azimuth f32_arith default_Projection two_points = Fin (1 / 2)
   \<and> c_elevation f32_arith default_Projection two_points = Fin 0
   \<and> f_azimuth f32_arith default_Projection two_points = Fin (- (10680707 / 33554432))
   \<and> f_elevation f32_arith default_Projection two_points = Fin (- (10680707 / 16777216))
   \<and> c_azimuth f32_arith (default_Projection\<lparr>cfg_c_azimuth := Fin 0\<rparr>) two_points = Fin 0
   \<and> f_azimuth f32_arith (default_Projection\<lparr>cfg_f_azimuth := Fin 0\<rparr>) two_points
       = Fin (- (10680707 / 33554432))
   \<and> f_azimuth f32_arith (default_Projection\<lparr>cfg_f_azimuth := Fin 7\<rparr>) two_points = Fin 7"
  using mapping_constants [of f32_arith default_Projection two_points]
    mapping_constants [of f32_arith "default_Projection\<lparr>cfg_c_azimuth := Fin 0\<rparr>" two_points]
    mapping_constants [of f32_arith "default_Projection\<lparr>cfg_f_azimuth := Fin 0\<rparr>" two_points]
    mapping_constants [of f32_arith "default_Projection\<lparr>cfg_f_azimuth := Fin 7\<rparr>" two_points]
  by (simp add: eval_defs two_points_def exact_at_def)

section \<open>The column of a point\<close>

lemma range_test_kept:
  assumes "(if flt u (Fin 0) \<or> fge u w \<or> isnan u then None else Some (to_size u)) = Some j"
    and "\<not> isnan w"
  shows "isfinite u \<and> 0 \<le> val u \<and> j = nat \<lfloor>val u\<rfloor>"
  using assms by (cases u; cases w) (auto simp add: fge_def to_size_def split: if_splits)

lemma range_test_finite:
  assumes "isfinite u" and "isfinite w"
  shows "(flt u (Fin 0) \<or> fge u w \<or> isnan u) \<longleftrightarrow> val u < 0 \<or> val w \<le> val u"
  using assms by (cases u; cases w) (auto simp add: fge_def)

lemma fge_refl: "\<not> isnan u \<Longrightarrow> fge u u"
  by (cases u) (simp_all add: fge_def)

text \<open>
  Against claim C6, for \<open>T = float\<close>: the output has one row of \<open>2^24 + 1\<close> pixels and the
  offset of the azimuth is set to \<open>2^24\<close>. The point \<open>(1, 0, 0)\<close> is valid and its azimuth is
  0; \<open>u\<close> is \<open>2^24\<close> before and after \<open>u += 0.5\<close>, which is inside the interval from 0 to
  \<open>output.width\<close>. In \<open>u >= output.width\<close> the width is converted to \<open>float\<close>, which gives
  \<open>2^24\<close>, so the point is dropped and the output of the call holds only zeros.
\<close>

theorem boundary_point_dropped:
  "init_output boundary one_point empty_cloud = Inr boundary_out
   \<and> read_at xyz_f32 (point_step one_point) (data one_point) (x_in_position one_point 0 0)
       = Some (Fin 1, Fin 0, Fin 0)
   \<and> is_point_valid (Fin 1) (Fin 0) (Fin 0)
   \<and> u_of f32_arith boundary boundary_out (Fin 1) (Fin 0) (Fin 0) = Fin 16777216
   \<and> (0 :: real) \<le> 16777216 \<and> 16777216 < real (unat (width boundary_out))
   \<and> out_column f32_arith boundary boundary_out (Fin 1) (Fin 0) (Fin 0) = None
   \<and> process f32_arith boundary xyz_f32 one_point empty_cloud = Inr (True, boundary_out)"
  by (simp add: eval_defs boundary_def unit_scales_def one_point_def boundary_out_def)

text \<open>
  Claim C6, amended. For an input point, \<open>u\<close> is the value of \<open>T\<close> computed for
  \<open>f_azimuth * azimuth + c_azimuth\<close> and then for \<open>u + 0.5\<close>, every operation rounded. The
  source continues at line 88, and so writes nothing for the point, exactly when \<open>u\<close> is a
  NaN, is below 0 or is at least \<open>T(output.width)\<close>, the width converted to \<open>T\<close>; between
  finite values these are the comparisons of numbers. In particular a point whose \<open>u\<close> is
  \<open>T(output.width)\<close> is dropped. Otherwise \<open>u\<close> is finite and not negative and the column is
  the floor of \<open>u\<close>. A dropped point leaves the bytes of the output as they are.
\<close>

theorem column_of_valid_point:
  "u_of A P out x y z =
     in_T A (in_wide A
       (fadd (in_T A (fadd (in_T A (fmul (f_azimuth A P out) (azimuth_T A x y z)))
                           (c_azimuth A P out)))
             (Fin (1 / 2))))
   \<and> (out_column A P out x y z = None \<longleftrightarrow>
        isnan (u_of A P out x y z) \<or> flt (u_of A P out x y z) (Fin 0)
        \<or> fge (u_of A P out x y z) (of_u32 A (width out)))
   \<and> (isfinite (u_of A P out x y z) \<and> isfinite (of_u32 A (width out)) \<longrightarrow>
        (out_column A P out x y z = None \<longleftrightarrow>
           val (u_of A P out x y z) < 0
           \<or> val (of_u32 A (width out)) \<le> val (u_of A P out x y z)))
   \<and> (u_of A P out x y z = of_u32 A (width out) \<longrightarrow> out_column A P out x y z = None)
   \<and> (out_column A P out x y z = Some j \<and> \<not> isnan (of_u32 A (width out)) \<longrightarrow>
        isfinite (u_of A P out x y z) \<and> 0 \<le> val (u_of A P out x y z)
        \<and> j = nat \<lfloor>val (u_of A P out x y z)\<rfloor>)
   \<and> (read_at xyz (point_step input) (data input) (x_in_position input i_in j_in)
         = Some (x, y, z)
       \<and> out_column A P out x y z = None \<longrightarrow>
       process_point A P xyz input out i_in j_in odata = Inr odata)"
proof -
  let ?u = "u_of A P out x y z" and ?w = "of_u32 A (width out)"
  have 1: "out_column A P out x y z = None \<longleftrightarrow> isnan ?u \<or> flt ?u (Fin 0) \<or> fge ?u ?w"
    by (auto simp add: out_column_def Let_def)
  have 2: "out_column A P out x y z = None \<longleftrightarrow> val ?u < 0 \<or> val ?w \<le> val ?u"
    if "isfinite ?u" and "isfinite ?w"
    using range_test_finite [OF that] 1 by blast
  have 3: "out_column A P out x y z = None" if "?u = ?w"
  proof (cases "isnan ?u")
    case True
    then show ?thesis by (simp add: 1)
  next
    case False
    from fge_refl [OF this] that show ?thesis by (simp add: 1)
  qed
  have 4: "isfinite ?u \<and> 0 \<le> val ?u \<and> j = nat \<lfloor>val ?u\<rfloor>"
    if "out_column A P out x y z = Some j" and "\<not> isnan ?w"
    using that range_test_kept [of ?u ?w j] by (simp add: out_column_def Let_def)
  have 5: "process_point A P xyz input out i_in j_in odata = Inr odata"
    if "read_at xyz (point_step input) (data input) (x_in_position input i_in j_in)
          = Some (x, y, z)"
      and "out_column A P out x y z = None"
    using that by (simp add: process_point_def)
  have 0: "?u = in_T A (in_wide A
       (fadd (in_T A (fadd (in_T A (fmul (f_azimuth A P out) (azimuth_T A x y z)))
                           (c_azimuth A P out)))
             (Fin (1 / 2))))"
    by (simp add: u_of_def)
  show ?thesis
    using 0 1 2 3 4 5 by blast
qed

theorem column_of_valid_point_witness:
  "isfinite (u_of f32_arith unit_scales one_point (Fin 1) (Fin 0) (Fin 0))
   \<and> isfinite (of_u32 f32_arith (width one_point))
   \<and> \<not> isnan (of_u32 f32_arith (width one_point))
   \<and> u_of f32_arith unit_scales one_point (Fin 1) (Fin 0) (Fin 0) = Fin (1 / 2)
   \<and> out_column f32_arith unit_scales one_point (Fin 1) (Fin 0) (Fin 0) = Some 0
   \<and> read_at xyz_f32 (point_step one_point) (data one_point) (x_in_position one_point 0 0)
       = Some (Fin 1, Fin 0, Fin 0)
   \<and> u_of f32_arith (unit_scales\<lparr>cfg_c_azimuth := Fin (1 / 2)\<rparr>) one_point (Fin 1) (Fin 0) (Fin 0)
       = of_u32 f32_arith (width one_point)
   \<and> out_column f32_arith (unit_scales\<lparr>cfg_c_azimuth := Fin (1 / 2)\<rparr>) one_point
       (Fin 1) (Fin 0) (Fin 0) = None
   \<and> process_point f32_arith (unit_scales\<lparr>cfg_c_azimuth := Fin (1 / 2)\<rparr>) xyz_f32 one_point
       one_point 0 0 (replicate 16 0) = Inr (replicate 16 0)"
  using column_of_valid_point [of f32_arith unit_scales one_point "Fin 1" "Fin 0" "Fin 0" 0
      xyz_f32 one_point 0 0 "replicate 16 0"]
    column_of_valid_point [of f32_arith "unit_scales\<lparr>cfg_c_azimuth := Fin (1 / 2)\<rparr>" one_point
      "Fin 1" "Fin 0" "Fin 0" 0 xyz_f32 one_point 0 0 "replicate 16 0"]
  by (simp add: eval_defs unit_scales_def one_point_def)

section \<open>The policies KEEP\_CLOSEST and KEEP\_FARTHEST\<close>




section \<open>The assertions and the header of the output\<close>

lemma one_le_word_iff: "1 \<le> w \<longleftrightarrow> w \<noteq> 0" for w :: u32
  by (simp add: word_le_nat_alt unat_eq_0 Suc_le_eq unat_gt_0)

lemma output_height_nonzero: "1 \<le> height input \<Longrightarrow> 1 \<le> output_height P input"
  by (simp add: output_height_def u32_of_int_def one_le_word_iff)

lemma output_width_nonzero: "1 \<le> width input \<Longrightarrow> 1 \<le> output_width P input"
  by (simp add: output_width_def u32_of_int_def one_le_word_iff)

lemma init_output_eq:
  "init_output P input output =
    (if \<not> 1 \<le> height input then Inl (Assertion_failed 52 output)
     else if \<not> 1 \<le> width input then Inl (Assertion_failed 53 output)
     else if row_step input \<noteq> width input * point_step input then Inl (Assertion_failed 54 output)
     else Inr (initial_output P input output))"
  by (simp add: init_output_def Let_def initial_output_def output_height_nonzero
      output_width_nonzero)

lemma process_Inr:
  assumes "process A P xyz input output = Inr (b, out)"
  shows "b \<and> (\<exists>d. out = (initial_output P input output)\<lparr>data := d\<rparr>)
    \<and> 1 \<le> height input \<and> 1 \<le> width input \<and> row_step input = width input * point_step input"
  using assms
  by (auto simp add: process_def init_output_eq split: if_splits sum.splits)

lemma process_sizes:
  assumes "process A P xyz input output = Inr (b, out)"
  shows "height out = output_height P input" and "width out = output_width P input"
  using process_Inr [OF assms] by (auto simp add: initial_output_def)

section \<open>The size of the output\<close>

text \<open>
  Claim C4. Once the assertions have passed, and so whenever \<open>process\<close> returns, the height
  of the output is the height of the input if azimuth-only mode is set or the configured
  height is 0, and the configured height (converted to \<open>uint32\<close>) otherwise; its width is the
  width of the input if the configured width is 0, and the configured width otherwise.
\<close>

theorem output_size_resolution:
  "(init_output P input output = Inr out0 \<longrightarrow>
      height out0 = (if cfg_azimuth_only P \<or> cfg_height P = 0 then height input
                     else u32_of_int (cfg_height P))
      \<and> width out0 = (if cfg_width P = 0 then width input else u32_of_int (cfg_width P)))
   \<and> (process A P xyz input output = Inr (b, out) \<longrightarrow>
      height out = (if cfg_azimuth_only P \<or> cfg_height P = 0 then height input
                    else u32_of_int (cfg_height P))
      \<and> width out = (if cfg_width P = 0 then width input else u32_of_int (cfg_width P)))"
  using process_sizes [of A P xyz input "output" b out]
  by (auto simp add: init_output_eq initial_output_def output_height_def output_width_def
      split: if_splits)

theorem output_size_resolution_witness:
  "init_output default_Projection two_points empty_cloud =
     Inr (two_points\<lparr>data := replicate 32 0\<rparr>)
   \<and> process f32_arith default_Projection xyz_f32 two_points empty_cloud =
     Inr (True, two_points\<lparr>data := replicate 16 0 @ drop 16 (data two_points)\<rparr>)
   \<and> height (two_points\<lparr>data := replicate 16 0 @ drop 16 (data two_points)\<rparr>) = height two_points
   \<and> width (two_points\<lparr>data := replicate 16 0 @ drop 16 (data two_points)\<rparr>) = width two_points
   \<and> init_output rows_kept two_points empty_cloud =
     Inr (two_points\<lparr>data := replicate 32 0\<rparr>)
   \<and> process f32_arith rows_kept xyz_f32 two_points empty_cloud =
     Inr (True, two_points\<lparr>data := replicate 16 0 @ drop 16 (data two_points)\<rparr>)
   \<and> init_output (default_Projection\<lparr>cfg_height := 1, cfg_width := 1\<rparr>) two_points empty_cloud =
     Inr (one_point\<lparr>data := replicate 16 0\<rparr>)
   \<and> process f32_arith (default_Projection\<lparr>cfg_height := 1, cfg_width := 1\<rparr>) xyz_f32 two_points
       empty_cloud =
     Inr (True, one_point\<lparr>data := drop 16 (data two_points)\<rparr>)
   \<and> height (one_point\<lparr>data := drop 16 (data two_points)\<rparr>) = 1
   \<and> width (one_point\<lparr>data := drop 16 (data two_points)\<rparr>) = 1"
  using output_size_resolution [of default_Projection two_points empty_cloud
      "two_points\<lparr>data := replicate 32 0\<rparr>" f32_arith xyz_f32 True
      "two_points\<lparr>data := replicate 16 0 @ drop 16 (data two_points)\<rparr>"]
    output_size_resolution [of rows_kept two_points empty_cloud
      "two_points\<lparr>data := replicate 32 0\<rparr>" f32_arith xyz_f32 True
      "two_points\<lparr>data := replicate 16 0 @ drop 16 (data two_points)\<rparr>"]
    output_size_resolution [of "default_Projection\<lparr>cfg_height := 1, cfg_width := 1\<rparr>"
      two_points empty_cloud "one_point\<lparr>data := replicate 16 0\<rparr>" f32_arith xyz_f32 True
      "one_point\<lparr>data := drop 16 (data two_points)\<rparr>"]
  by (simp add: eval_defs two_points_def one_point_def rows_kept_def)

section \<open>Failure and success of a call\<close>

text \<open>
  Claim C9 says that a call whose preconditions hold fully succeeds, and that a call which
  does not succeed leaves the output as it was. This call does neither, for \<open>T = float\<close>: the
  input \<open>one_point\<close> is well formed and the five assertions hold, the resolved height and
  width are 65536, and line 66 computes the size of the buffer, \<open>65536 * 65536 * 16\<close>, in 32
  bits, which gives 0. The header of the output has been overwritten and its buffer emptied
  when the copy of line 129 writes outside the buffer.
\<close>

theorem huge_image_out_of_bounds:
  "well_formed one_point
   \<and> init_output huge_image one_point empty_cloud
       = Inr (initial_output huge_image one_point empty_cloud)
   \<and> height (initial_output huge_image one_point empty_cloud) = 65536
   \<and> width (initial_output huge_image one_point empty_cloud) = 65536
   \<and> data (initial_output huge_image one_point empty_cloud) = []
   \<and> initial_output huge_image one_point empty_cloud \<noteq> empty_cloud
   \<and> target f32_arith huge_image xyz_f32 one_point
       (initial_output huge_image one_point empty_cloud) 0 0 = Some (32768, 32768)
   \<and> process f32_arith huge_image xyz_f32 one_point empty_cloud = Inl Out_of_bounds"
proof -
  have "process f32_arith huge_image xyz_f32 one_point empty_cloud = Inl Out_of_bounds"
    by (simp add: eval_defs one_point_def huge_image_def)
  moreover have "target f32_arith huge_image xyz_f32 one_point
       (initial_output huge_image one_point empty_cloud) 0 0 = Some (32768, 32768)"
    by (simp add: target_def initial_output_def eval_defs one_point_def huge_image_def)
  moreover have "well_formed one_point"
    "init_output huge_image one_point empty_cloud
       = Inr (initial_output huge_image one_point empty_cloud)"
    "height (initial_output huge_image one_point empty_cloud) = 65536"
    "width (initial_output huge_image one_point empty_cloud) = 65536"
    "data (initial_output huge_image one_point empty_cloud) = []"
    "initial_output huge_image one_point empty_cloud \<noteq> empty_cloud"
    by (simp_all add: well_formed_def init_output_eq initial_output_def output_height_def
        output_width_def u32_of_int_def one_point_def huge_image_def default_Projection_def
        empty_cloud_def)
  ultimately show ?thesis by simp
qed

section \<open>The pixels of the output\<close>

text \<open>
  Claim C1 says that after a call every pixel of the output holds the record of one input
  point or zeros. After this call one pixel holds neither, for \<open>T = float\<close>: in azimuth-only
  mode with a configured width of 357913942 and records of 12 bytes, line 63 computes
  \<open>row_step\<close> in 32 bits, which gives 8, and line 66 gives the buffer 24 bytes. The assertions
  hold and the call returns true, but the rows overlap: pixel \<open>(0, 0)\<close> is left with the first
  eight bytes of the first point followed by the first four of the second.
\<close>

theorem mixed_cell:
  "well_formed three_rows
   \<and> process f32_arith wide_rows xyz_f32 three_rows empty_cloud = Inr (True, three_rows_out)
   \<and> cell three_rows_out 0 0 = [0, 0, 128, 63, 0, 0, 0, 0, 0, 0, 0, 64]
   \<and> cell three_rows_out 0 0 \<noteq> replicate (unat (point_step three_rows_out)) 0
   \<and> cell three_rows_out 0 0 \<noteq> cell three_rows 0 0
   \<and> cell three_rows_out 0 0 \<noteq> cell three_rows 1 0
   \<and> cell three_rows_out 0 0 \<noteq> cell three_rows 2 0"
proof -
  have "process f32_arith wide_rows xyz_f32 three_rows empty_cloud = Inr (True, three_rows_out)"
    by (simp add: eval_defs three_rows_def three_rows_out_def wide_rows_def replicate_numeral)
  moreover have "well_formed three_rows"
    "cell three_rows_out 0 0 = [0, 0, 128, 63, 0, 0, 0, 0, 0, 0, 0, 64]"
    "cell three_rows 0 0 = [0, 0, 128, 63, 0, 0, 0, 0, 0, 0, 0, 0]"
    "cell three_rows 1 0 = [0, 0, 0, 64, 0, 0, 0, 0, 0, 0, 0, 0]"
    "cell three_rows 2 0 = [0, 0, 0, 0, 0, 0, 0, 0, 0, 0, 0, 0]"
    "replicate (unat (point_step three_rows_out)) 0 = [0, 0, 0, 0, 0, 0, 0, 0, 0, 0, 0, 0 :: byte]"
    by (simp_all add: well_formed_def cell_def three_rows_def three_rows_out_def replicate_numeral)
  ultimately show ?thesis by simp
qed

section \<open>The policies KEEP\_FIRST and KEEP\_LAST\<close>

text \<open>
  Claim C3 says that under \<open>KEEP_LAST\<close> a pixel holds the last point of the scan that is
  projected to it. After this call it does not, for \<open>T = float\<close>: in azimuth-only mode with a
  configured width of 357913942 and records of 12 bytes, the first two points of
  \<open>six_points\<close> are projected to pixel \<open>(0, 0)\<close> and no later point is. The rows of the output
  overlap, since line 63 has computed a \<open>row_step\<close> of 8, and the third point, written to
  pixel \<open>(1, 0)\<close>, replaces the last four bytes of pixel \<open>(0, 0)\<close>, which then no longer holds
  the record of the second point.
\<close>

theorem last_point_overwritten:
  "well_formed six_points \<and> cfg_keep wide_rows = KEEP_LAST
   \<and> process f32_arith wide_rows xyz_f32 six_points empty_cloud = Inr (True, six_points_out)
   \<and> target f32_arith wide_rows xyz_f32 six_points six_points_out 0 0 = Some (0, 0)
   \<and> target f32_arith wide_rows xyz_f32 six_points six_points_out 0 1 = Some (0, 0)
   \<and> target f32_arith wide_rows xyz_f32 six_points six_points_out 1 0 = Some (1, 0)
   \<and> target f32_arith wide_rows xyz_f32 six_points six_points_out 1 1 = None
   \<and> target f32_arith wide_rows xyz_f32 six_points six_points_out 2 0 = None
   \<and> target f32_arith wide_rows xyz_f32 six_points six_points_out 2 1 = None
   \<and> cell six_points 0 1 = [0, 0, 0, 64, 0, 0, 0, 0, 0, 0, 0, 0]
   \<and> cell six_points_out 0 0 = [0, 0, 0, 64, 0, 0, 0, 0, 0, 0, 128, 64]
   \<and> cell six_points_out 0 0 \<noteq> cell six_points 0 1"
proof -
  have "process f32_arith wide_rows xyz_f32 six_points empty_cloud = Inr (True, six_points_out)"
    by (simp add: eval_defs six_points_def six_points_out_def wide_rows_def replicate_numeral)
  moreover have "target f32_arith wide_rows xyz_f32 six_points six_points_out 0 0 = Some (0, 0)"
    "target f32_arith wide_rows xyz_f32 six_points six_points_out 0 1 = Some (0, 0)"
    "target f32_arith wide_rows xyz_f32 six_points six_points_out 1 0 = Some (1, 0)"
    "target f32_arith wide_rows xyz_f32 six_points six_points_out 1 1 = None"
    "target f32_arith wide_rows xyz_f32 six_points six_points_out 2 0 = None"
    "target f32_arith wide_rows xyz_f32 six_points six_points_out 2 1 = None"
    by (simp_all add: target_def eval_defs six_points_def six_points_out_def wide_rows_def)
  moreover have "well_formed six_points" "cfg_keep wide_rows = KEEP_LAST"
    "cell six_points 0 1 = [0, 0, 0, 64, 0, 0, 0, 0, 0, 0, 0, 0]"
    "cell six_points_out 0 0 = [0, 0, 0, 64, 0, 0, 0, 0, 0, 0, 128, 64]"
    by (simp_all add: well_formed_def cell_def six_points_def six_points_out_def wide_rows_def
        default_Projection_def)
  ultimately show ?thesis by simp
qed

section \<open>The azimuth-only mode\<close>

text \<open>
  Claim C10 says that in azimuth-only mode the copy of a record is always inside the buffer
  of the output. In this call it is not, for \<open>T = float\<close>: the height of the output is the
  height of the input and the row of the point is below it, but with a configured width of
  \<open>2^28\<close> and records of 16 bytes line 66 computes the size of the buffer, \<open>1 * 2^28 * 16\<close>,
  in 32 bits, which gives 0, and the copy of the single input point is outside the buffer.
  Under a policy that reads the output the call stops before the copy: the iterator of line
  106 is moved by \<open>2^27\<close> records of 16 bytes, which overflows its \<open>int\<close>.
\<close>

theorem huge_row_out_of_bounds:
  "well_formed one_point \<and> cfg_azimuth_only huge_row
   \<and> init_output huge_row one_point empty_cloud
       = Inr (initial_output huge_row one_point empty_cloud)
   \<and> height (initial_output huge_row one_point empty_cloud) = height one_point
   \<and> data (initial_output huge_row one_point empty_cloud) = []
   \<and> target f32_arith huge_row xyz_f32 one_point
       (initial_output huge_row one_point empty_cloud) 0 0 = Some (0, 134217728)
   \<and> process f32_arith huge_row xyz_f32 one_point empty_cloud = Inl Out_of_bounds
   \<and> process f32_arith (huge_row\<lparr>cfg_keep := KEEP_FIRST\<rparr>) xyz_f32 one_point empty_cloud
       = Inl Signed_overflow"
proof -
  have "process f32_arith huge_row xyz_f32 one_point empty_cloud = Inl Out_of_bounds"
    "process f32_arith (huge_row\<lparr>cfg_keep := KEEP_FIRST\<rparr>) xyz_f32 one_point empty_cloud
       = Inl Signed_overflow"
    by (simp_all add: eval_defs one_point_def huge_row_def)
  moreover have "target f32_arith huge_row xyz_f32 one_point
       (initial_output huge_row one_point empty_cloud) 0 0 = Some (0, 134217728)"
    by (simp add: target_def initial_output_def eval_defs one_point_def huge_row_def)
  moreover have "well_formed one_point" "cfg_azimuth_only huge_row"
    "init_output huge_row one_point empty_cloud
       = Inr (initial_output huge_row one_point empty_cloud)"
    "height (initial_output huge_row one_point empty_cloud) = height one_point"
    "data (initial_output huge_row one_point empty_cloud) = []"
    by (simp_all add: well_formed_def init_output_eq initial_output_def output_height_def
        output_width_def u32_of_int_def one_point_def huge_row_def default_Projection_def)
  ultimately show ?thesis by simp
qed

end
